theory Spec2Isabelle
  imports Complex_Main
begin

section \<open>Python strings\<close>

text \<open>
  Python's \<open>str\<close> is modelled by \<^typ>\<open>string\<close>. The string methods the program
  calls are written out for the ASCII range: \<open>lower\<close> maps \<open>A..Z\<close> to \<open>a..z\<close> and
  leaves every other character alone, and the whitespace of \<open>strip\<close> and \<open>split\<close> is
  the ASCII whitespace of Python (tab, line feed, vertical tab, form feed, carriage
  return, the separators 0x1c..0x1f and space). A character outside ASCII is an opaque
  symbol that is neither a letter nor whitespace.
\<close>

definition is_space :: "char \<Rightarrow> bool" where
  "is_space c = (c \<in> set [CHR 0x09, CHR 0x0A, CHR 0x0B, CHR 0x0C, CHR 0x0D,
                           CHR 0x1C, CHR 0x1D, CHR 0x1E, CHR 0x1F, CHR '' ''])"

definition lower_char :: "char \<Rightarrow> char" where
  "lower_char c =
     (case map_of (zip ''ABCDEFGHIJKLMNOPQRSTUVWXYZ'' ''abcdefghijklmnopqrstuvwxyz'') c of
        Some l \<Rightarrow> l
      | None \<Rightarrow> c)"

definition lower :: "string \<Rightarrow> string" where
  "lower s = map lower_char s"

definition lstrip :: "string \<Rightarrow> string" where
  "lstrip s = dropWhile is_space s"

definition rstrip :: "string \<Rightarrow> string" where
  "rstrip s = rev (dropWhile is_space (rev s))"

definition strip :: "string \<Rightarrow> string" where
  "strip s = rstrip (lstrip s)"

definition startswith :: "string \<Rightarrow> string \<Rightarrow> bool" where
  \<comment> \<open>\<open>s.startswith(p)\<close>\<close>
  "startswith p s = (take (length p) s = p)"

fun contains :: "string \<Rightarrow> string \<Rightarrow> bool" where
  \<comment> \<open>\<open>sub in s\<close>\<close>
  "contains sub [] = (sub = [])"
| "contains sub (c # cs) = (startswith sub (c # cs) \<or> contains sub cs)"

fun split_once :: "string \<Rightarrow> string \<Rightarrow> (string \<times> string) option" where
  \<comment> \<open>\<open>s.split(sep, 1)\<close> for a separator that is not empty: the parts before and after
      the first occurrence, \<open>None\<close> when \<open>sep\<close> does not occur\<close>
  "split_once sep [] = None"
| "split_once sep (c # cs) =
     (if startswith sep (c # cs) then Some ([], drop (length sep) (c # cs))
      else (case split_once sep cs of
              None \<Rightarrow> None
            | Some (a, b) \<Rightarrow> Some (c # a, b)))"

fun split_runs :: "(char \<Rightarrow> bool) \<Rightarrow> string \<Rightarrow> string \<Rightarrow> string list" where
  \<comment> \<open>the maximal runs of characters that are not separators; \<open>cur\<close> is the run being read\<close>
  "split_runs is_sep cur [] = (if cur = [] then [] else [cur])"
| "split_runs is_sep cur (c # cs) =
     (if is_sep c then (if cur = [] then split_runs is_sep [] cs
                        else cur # split_runs is_sep [] cs)
      else split_runs is_sep (cur @ [c]) cs)"

definition py_split :: "string \<Rightarrow> string list" where
  \<comment> \<open>\<open>s.split()\<close>: split on runs of whitespace, no empty strings\<close>
  "py_split s = split_runs is_space [] s"

definition basename :: "string \<Rightarrow> string" where
  \<comment> \<open>\<open>os.path.basename\<close>: what follows the last slash\<close>
  "basename p = rev (takeWhile (\<lambda>c. c \<noteq> CHR ''/'') (rev p))"

section \<open>ssh\_parser.py\<close>

definition SSH_COMMANDS :: "string list" where
  "SSH_COMMANDS = [''ssh'', ''slogin'', ''mosh'', ''mosh-client'']"

definition SSH_OPTIONS_WITH_ARG :: "string list" where
  "SSH_OPTIONS_WITH_ARG =
     [''-b'', ''-c'', ''-D'', ''-E'', ''-F'', ''-I'', ''-i'', ''-J'', ''-L'', ''-l'',
      ''-m'', ''-O'', ''-o'', ''-p'', ''-Q'', ''-R'', ''-S'', ''-W'', ''-w'', ''-B'']"

text \<open>
  \<open>_take_first_non_option\<close> is a \<open>while\<close> loop over the index \<open>i\<close>. The inner
  \<open>for ... else\<close> advances \<open>i\<close> by one on both of its exits.
\<close>

function take_first_non_option_from :: "string list \<Rightarrow> nat \<Rightarrow> string option" where
  "take_first_non_option_from args i =
     (if i < length args then
        (let arg = args ! i in
         if arg = ''--'' then
           (if i + 1 < length args then Some (args ! (i + 1)) else None)
         else if startswith ''-'' arg then
           (if arg \<in> set SSH_OPTIONS_WITH_ARG then take_first_non_option_from args (i + 2)
            else if list_ex (\<lambda>opt. startswith opt arg \<and> length arg > length opt)
                      SSH_OPTIONS_WITH_ARG
                 then take_first_non_option_from args (i + 1)
                 else take_first_non_option_from args (i + 1))
         else Some arg)
      else None)"
  by pat_completeness auto
termination
  by (relation "measure (\<lambda>(args, i). length args - i)") auto

declare take_first_non_option_from.simps [simp del]

definition take_first_non_option :: "string list \<Rightarrow> string option" where
  "take_first_non_option args = take_first_non_option_from args 0"

fun py_find :: "string \<Rightarrow> string \<Rightarrow> int" where
  \<comment> \<open>\<open>s.find(sub)\<close>: the index of the first occurrence, \<open>-1\<close> when there is none\<close>
  "py_find sub [] = (if sub = [] then 0 else - 1)"
| "py_find sub (c # cs) =
     (if startswith sub (c # cs) then 0
      else (let k = py_find sub cs in if k < 0 then - 1 else k + 1))"

definition py_split1 :: "string \<Rightarrow> string \<Rightarrow> string list" where
  \<comment> \<open>\<open>s.split(sep, 1)\<close>\<close>
  "py_split1 sep s = (case split_once sep s of None \<Rightarrow> [s] | Some (a, b) \<Rightarrow> [a, b])"

definition normalize_hostname :: "string \<Rightarrow> string" where
  "normalize_hostname host0 =
     (let host1 = (if contains ''@'' host0 then py_split1 ''@'' host0 ! 1 else host0);
          host2 = strip host1;
          host3 =
            (if startswith ''['' host2 then
               (let bracket_end = py_find '']'' host2 in
                if bracket_end > 0 then drop 1 (take (nat bracket_end) host2)
                else drop 1 host2)
             else if contains '':'' host2 then py_split1 '':'' host2 ! 0
             else host2)
      in lower host3)"

datatype cmdline = CmdStr string | CmdSeq "string list"

definition parse_ssh_host :: "cmdline \<Rightarrow> string option" where
  "parse_ssh_host cmdline =
     (let argv = (case cmdline of CmdStr s \<Rightarrow> py_split s | CmdSeq xs \<Rightarrow> xs) in
      case argv of
        [] \<Rightarrow> None
      | a0 # rest \<Rightarrow>
          if basename a0 \<notin> set SSH_COMMANDS then None
          else (case take_first_non_option rest of
                  None \<Rightarrow> None
                | Some host \<Rightarrow> if host = [] then None else Some (normalize_hostname host)))"

section \<open>yaml\_parser.py\<close>

definition MAX_CONFIG_SIZE :: nat where
  "MAX_CONFIG_SIZE = 1024 * 1024"

definition MAX_REGEX_LENGTH :: nat where
  "MAX_REGEX_LENGTH = 500"

text \<open>
  A configuration value is a string or a nested mapping (\<open>str | dict[str, Any]\<close>).
  Python's dictionaries keep insertion order, and assigning to a key that is present
  replaces its value in place; they are association lists with \<open>dict_set\<close> as the
  assignment and \<^const>\<open>map_of\<close> as the lookup.
\<close>

datatype yaml_value = Str string | Dict "(string \<times> yaml_value) list"

type_synonym yaml_dict = "(string \<times> yaml_value) list"

fun dict_set :: "('k \<times> 'v) list \<Rightarrow> 'k \<Rightarrow> 'v \<Rightarrow> ('k \<times> 'v) list" where
  \<comment> \<open>\<open>d[k] = v\<close>\<close>
  "dict_set [] k v = [(k, v)]"
| "dict_set ((k', v') # d) k v =
     (if k' = k then (k', v) # d else (k', v') # dict_set d k v)"

definition dict_get :: "('k \<times> 'v) list \<Rightarrow> 'k \<Rightarrow> 'v option" where
  \<comment> \<open>\<open>d.get(k)\<close>\<close>
  "dict_get d k = map_of d k"

record IconConfig =
  fallback_icon :: string
  show_name :: bool
  use_process_name :: bool
  prefer_host_icon :: bool
  ring_color_active :: string
  ring_color_inactive :: string
  icon_color :: string
  alert_color :: string
  multi_pane_icon :: string
  layout_glyphs :: "(string \<times> string) list"

definition default_fallback_icon :: string where
  \<comment> \<open>the code point U+F0D59, as its four UTF-8 bytes\<close>
  "default_fallback_icon = [CHR 0xF3, CHR 0xB0, CHR 0xB5, CHR 0x99]"

definition default_IconConfig :: IconConfig where
  "default_IconConfig =
     \<lparr> fallback_icon = default_fallback_icon,
       show_name = False,
       use_process_name = False,
       prefer_host_icon = True,
       ring_color_active = ''#875fff'',
       ring_color_inactive = ''#45475a'',
       icon_color = ''#cdd6f4'',
       alert_color = ''#f38ba8'',
       multi_pane_icon = '''',
       layout_glyphs = [] \<rparr>"

record ParsedConfig =
  config :: IconConfig
  icons :: yaml_dict
  title_icons :: "(string \<times> string) list"
  sessions :: "(string \<times> string) list"
  hosts :: yaml_dict

text \<open>
  The exceptions of the program and of the library functions it calls.
  \<open>YamlParseError\<close> is a subclass of \<open>ValueError\<close> that carries the line number and
  puts it in front of its message; \<open>PermissionError\<close> is the \<open>OSError\<close> of opening a
  file that may not be read, \<open>UnicodeDecodeError\<close> the error of reading one that is not
  UTF-8, \<open>OverflowError\<close> what the regular expression engine raises for a repetition
  count that is too large.
\<close>

datatype py_error =
    FileNotFoundError string
  | ValueError string
  | YamlParseError string "nat option"
  | OSError string
  | PermissionError string
  | UnicodeDecodeError string
  | OverflowError string
  | AssertionError

function show_nat :: "nat \<Rightarrow> string" where
  \<comment> \<open>\<open>str(n)\<close>, the decimal digits\<close>
  "show_nat n =
     (if n < 10 then [''0123456789'' ! n]
      else show_nat (n div 10) @ [''0123456789'' ! (n mod 10)])"
  by pat_completeness auto
termination
  by (relation "measure (\<lambda>n. n)") auto

declare show_nat.simps [simp del]

definition new_YamlParseError :: "string \<Rightarrow> nat option \<Rightarrow> py_error" where
  "new_YamlParseError message line_number =
     YamlParseError
       (case line_number of
          None \<Rightarrow> message
        | Some n \<Rightarrow> ''Line '' @ show_nat n @ '': '' @ message)
       line_number"

definition strip_yaml_value :: "string \<Rightarrow> string" where
  "strip_yaml_value val0 =
     (let val1 = strip val0;
          val2 = (if contains '' #'' val1 then strip (py_split1 '' #'' val1 ! 0) else val1)
      in if val2 \<noteq> [] \<and> length val2 \<ge> 2 \<and> hd val2 \<in> set [CHR 0x22, CHR 0x27]
            \<and> last val2 = hd val2
         then butlast (tl val2)
         else val2)"

definition normalize_yaml_key :: "string \<Rightarrow> bool \<Rightarrow> string" where
  "normalize_yaml_key raw lowercase =
     (let key0 = strip raw;
          key1 = (if length key0 \<ge> 2 \<and> hd key0 \<in> set [CHR 0x22, CHR 0x27]
                     \<and> last key0 = hd key0
                  then butlast (tl key0)
                  else key0)
      in if lowercase then lower key1 else key1)"

definition get_indent_level :: "string \<Rightarrow> nat" where
  "get_indent_level line = length line - length (lstrip line)"

definition parse_bool :: "string \<Rightarrow> bool" where
  "parse_bool val =
     (let v = strip (lower val) in
      if v \<in> set [''true'', ''yes'', ''1'', ''on''] then True
      else if v \<in> set [''false'', ''no'', ''0'', ''off''] then False
      else False)"

definition is_inline_yaml_value :: "string \<Rightarrow> bool" where
  "is_inline_yaml_value rest =
     (if rest = [] then False
      else if hd rest \<in> set ''|>{['' then False
      else \<not> (hd rest = CHR ''#'' \<and> (length rest = 1 \<or> rest ! 1 = CHR '' '')))"

definition validate_pattern_length :: "string \<Rightarrow> nat \<Rightarrow> py_error + unit" where
  "validate_pattern_length pattern line_number =
     (if length pattern > MAX_REGEX_LENGTH then
        Inl (new_YamlParseError
               (''Regex pattern too long ('' @ show_nat (length pattern) @ '' chars, max ''
                  @ show_nat MAX_REGEX_LENGTH @ '')'')
               (Some line_number))
      else Inr ())"

text \<open>
  \<open>_iter_yaml_block\<close> is a generator over \<open>enumerate(lines)\<close>; the model returns the
  list of the tuples it yields. \<open>in_block\<close> and \<open>block_indent\<close> are the loop's
  variables, \<open>idx\<close> the index of the line at the head of the remaining lines. The
  \<open>break\<close> at a dedent ends the list.
\<close>

type_synonym block_item = "string \<times> string option \<times> nat \<times> nat"

fun iter_yaml_block_from ::
  "string \<Rightarrow> bool \<Rightarrow> nat option \<Rightarrow> nat \<Rightarrow> string list \<Rightarrow> block_item list" where
  "iter_yaml_block_from target_label in_block block_indent idx [] = []"
| "iter_yaml_block_from target_label in_block block_indent idx (raw # rest_lines) =
     (let stripped = strip raw in
      if \<not> in_block then
        (if stripped = target_label \<or> startswith (target_label @ '' '') stripped
         then iter_yaml_block_from target_label True block_indent (idx + 1) rest_lines
         else iter_yaml_block_from target_label False block_indent (idx + 1) rest_lines)
      else if stripped = [] \<or> startswith ''#'' stripped then
        iter_yaml_block_from target_label True block_indent (idx + 1) rest_lines
      else
        (let current_indent = get_indent_level raw;
             block_indent1 = (case block_indent of None \<Rightarrow> current_indent | Some b \<Rightarrow> b)
         in if current_indent < block_indent1 then []
            else if current_indent \<noteq> block_indent1 then
              iter_yaml_block_from target_label True (Some block_indent1) (idx + 1) rest_lines
            else if \<not> contains '':'' stripped then
              iter_yaml_block_from target_label True (Some block_indent1) (idx + 1) rest_lines
            else
              (let key_part = py_split1 '':'' stripped ! 0;
                   val_part = py_split1 '':'' stripped ! 1;
                   key = normalize_yaml_key key_part False;
                   rest = strip val_part
               in if key = [] then
                    iter_yaml_block_from target_label True (Some block_indent1) (idx + 1) rest_lines
                  else if is_inline_yaml_value rest then
                    (key, Some (strip_yaml_value rest), idx, current_indent)
                      # iter_yaml_block_from target_label True (Some block_indent1) (idx + 1) rest_lines
                  else
                    (key, None, idx, current_indent)
                      # iter_yaml_block_from target_label True (Some block_indent1) (idx + 1) rest_lines)))"

definition iter_yaml_block :: "string list \<Rightarrow> string \<Rightarrow> block_item list" where
  "iter_yaml_block lines block_label =
     iter_yaml_block_from (block_label @ '':'') False None 0 lines"

text \<open>
  \<open>_parse_nested_block\<close> is a \<open>while\<close> loop over \<open>idx\<close> that calls itself for a
  deeper block and goes on from the index the call returns. The loop's variables
  \<open>idx\<close>, \<open>block_indent\<close> and \<open>result\<close> are arguments of the model.
\<close>

function parse_nested_block_loop ::
  "string list \<Rightarrow> nat \<Rightarrow> nat \<Rightarrow> nat option \<Rightarrow> yaml_dict \<Rightarrow> yaml_dict \<times> nat" where
  "parse_nested_block_loop lines idx base_indent block_indent result =
     (if idx < length lines then
        (let raw = lines ! idx; stripped = strip raw in
         if stripped = [] \<or> startswith ''#'' stripped then
           parse_nested_block_loop lines (idx + 1) base_indent block_indent result
         else
           (let current_indent = get_indent_level raw in
            if current_indent \<le> base_indent then (result, idx)
            else
              (let block_indent1 =
                     (case block_indent of None \<Rightarrow> current_indent | Some b \<Rightarrow> b)
               in if current_indent > block_indent1 then
                    parse_nested_block_loop lines (idx + 1) base_indent (Some block_indent1) result
                  else if \<not> contains '':'' stripped then
                    parse_nested_block_loop lines (idx + 1) base_indent (Some block_indent1) result
                  else
                    (let key_part = py_split1 '':'' stripped ! 0;
                         val_part = py_split1 '':'' stripped ! 1;
                         key = normalize_yaml_key key_part False;
                         rest = strip val_part
                     in if key = [] then
                          parse_nested_block_loop lines (idx + 1) base_indent
                            (Some block_indent1) result
                        else if is_inline_yaml_value rest then
                          parse_nested_block_loop lines (idx + 1) base_indent
                            (Some block_indent1)
                            (dict_set result key (Str (strip_yaml_value rest)))
                        else
                          (case parse_nested_block_loop lines (idx + 1) current_indent None [] of
                             (nested, idx1) \<Rightarrow>
                               parse_nested_block_loop lines idx1 base_indent
                                 (Some block_indent1)
                                 (if nested \<noteq> [] then dict_set result key (Dict nested)
                                  else result))))))
      else (result, idx))"
  by pat_completeness auto

lemma parse_nested_block_loop_index:
  "parse_nested_block_loop_dom (lines, idx, base_indent, block_indent, result) \<Longrightarrow>
   idx \<le> snd (parse_nested_block_loop lines idx base_indent block_indent result)"
proof (induction lines idx base_indent block_indent result
    rule: parse_nested_block_loop.pinduct)
  case (1 lines idx base_indent block_indent result)
  note eq = parse_nested_block_loop.psimps[OF "1.hyps"]
  note ih1 = "1.IH"(1)[OF _ refl refl]
  note ih2 = "1.IH"(2)[OF _ refl refl _ refl _ refl]
  note ih3 = "1.IH"(3)[OF _ refl refl _ refl _ refl]
  note ih4 = "1.IH"(4)[OF _ refl refl _ refl _ refl _ _ refl refl refl refl]
  note ih5 = "1.IH"(5)[OF _ refl refl _ refl _ refl _ _ refl refl refl refl]
  note ih6 = "1.IH"(6)[OF _ refl refl _ refl _ refl _ _ refl refl refl refl]
  note ih7 = "1.IH"(7)[OF _ refl refl _ refl _ refl _ _ refl refl refl refl _ _
      prod.collapse]
  show ?case
  proof (cases "idx < length lines")
    case False
    then show ?thesis by (simp add: eq)
  next
    case lt: True
    let ?stripped = "strip (lines ! idx)"
    let ?ci = "get_indent_level (lines ! idx)"
    let ?bi = "case block_indent of None \<Rightarrow> ?ci | Some b \<Rightarrow> b"
    let ?key = "normalize_yaml_key (py_split1 '':'' ?stripped ! 0) False"
    let ?rest = "strip (py_split1 '':'' ?stripped ! 1)"
    let ?skip = "?stripped = [] \<or> startswith ''#'' ?stripped"
    consider (skip) "?skip"
      | (stop) "\<not> ?skip" "?ci \<le> base_indent"
      | (deeper) "\<not> ?skip" "\<not> ?ci \<le> base_indent" "?bi < ?ci"
      | (nocolon) "\<not> ?skip" "\<not> ?ci \<le> base_indent" "\<not> ?bi < ?ci"
          "\<not> contains '':'' ?stripped"
      | (nokey) "\<not> ?skip" "\<not> ?ci \<le> base_indent" "\<not> ?bi < ?ci"
          "\<not> \<not> contains '':'' ?stripped" "?key = []"
      | (inline) "\<not> ?skip" "\<not> ?ci \<le> base_indent" "\<not> ?bi < ?ci"
          "\<not> \<not> contains '':'' ?stripped" "?key \<noteq> []" "is_inline_yaml_value ?rest"
      | (nested) "\<not> ?skip" "\<not> ?ci \<le> base_indent" "\<not> ?bi < ?ci"
          "\<not> \<not> contains '':'' ?stripped" "?key \<noteq> []" "\<not> is_inline_yaml_value ?rest"
      by blast
    then show ?thesis
    proof cases
      case skip
      then show ?thesis using ih1[OF lt skip] lt by (simp add: eq Let_def)
    next
      case stop
      then show ?thesis using lt by (simp add: eq Let_def)
    next
      case deeper
      then show ?thesis using ih2[OF lt deeper] lt by (simp add: eq Let_def)
    next
      case nocolon
      then show ?thesis using ih3[OF lt nocolon] lt by (simp add: eq Let_def)
    next
      case nokey
      then show ?thesis using ih4[OF lt nokey] lt by (simp add: eq Let_def)
    next
      case inline
      then show ?thesis using ih5[OF lt inline] lt by (simp add: eq Let_def)
    next
      case nested
      then show ?thesis
        using ih6[OF lt nested] ih7[OF lt nested] lt
        by (auto simp add: eq Let_def case_prod_beta split: if_splits)
    qed
  qed
qed

termination parse_nested_block_loop
proof (relation "measure (\<lambda>(lines, idx, base_indent, block_indent, result). length lines - idx)",
    goal_cases)
  case (8 lines idx base_indent block_indent result x xa xb xc xd xe xf xg xh y)
  have "Suc idx \<le> snd (parse_nested_block_loop lines (Suc idx) xb None [])"
    using parse_nested_block_loop_index 8 by simp
  then have "Suc idx \<le> y"
    using 8 by (metis Suc_eq_plus1 snd_conv)
  then show ?case using 8 by simp
qed simp_all

declare parse_nested_block_loop.simps [simp del]

definition parse_nested_block :: "string list \<Rightarrow> nat \<Rightarrow> nat \<Rightarrow> yaml_dict \<times> nat" where
  "parse_nested_block lines start_idx base_indent =
     parse_nested_block_loop lines start_idx base_indent None []"

definition parse_config_section_step :: "IconConfig \<Rightarrow> block_item \<Rightarrow> IconConfig" where
  \<comment> \<open>the body of the loop of \<open>_parse_config_section\<close>\<close>
  "parse_config_section_step cfg item =
     (case item of (key, value_opt, line_idx, indent) \<Rightarrow>
        (case value_opt of
           None \<Rightarrow> cfg
         | Some v \<Rightarrow>
             (let norm_key = map (\<lambda>c. if c = CHR ''-'' then CHR ''_'' else c) (lower key) in
              if norm_key = ''fallback_icon'' \<and> v \<noteq> [] then cfg\<lparr>fallback_icon := v\<rparr>
              else if norm_key = ''show_name'' then cfg\<lparr>show_name := parse_bool v\<rparr>
              else if norm_key = ''use_process_name'' then
                cfg\<lparr>use_process_name := parse_bool v\<rparr>
              else if norm_key = ''prefer_host_icon'' then
                cfg\<lparr>prefer_host_icon := parse_bool v\<rparr>
              else if norm_key \<in> set [''ring_color_active'', ''index_color_active'']
                      \<and> v \<noteq> [] then
                cfg\<lparr>ring_color_active := v\<rparr>
              else if norm_key \<in> set [''ring_color_inactive'', ''index_color_inactive'']
                      \<and> v \<noteq> [] then
                cfg\<lparr>ring_color_inactive := v\<rparr>
              else if norm_key = ''icon_color'' \<and> v \<noteq> [] then cfg\<lparr>icon_color := v\<rparr>
              else if norm_key = ''alert_color'' \<and> v \<noteq> [] then cfg\<lparr>alert_color := v\<rparr>
              else if norm_key = ''multi_pane_icon'' \<and> v \<noteq> [] then
                cfg\<lparr>multi_pane_icon := v\<rparr>
              else cfg)))"

definition parse_config_section :: "string list \<Rightarrow> IconConfig" where
  "parse_config_section lines =
     foldl parse_config_section_step default_IconConfig (iter_yaml_block lines ''config'')"

definition parse_nested_section_step :: "string list \<Rightarrow> yaml_dict \<Rightarrow> block_item \<Rightarrow> yaml_dict" where
  "parse_nested_section_step lines result item =
     (case item of (key, value_opt, line_idx, indent) \<Rightarrow>
        (case value_opt of
           Some v \<Rightarrow> dict_set result key (Str v)
         | None \<Rightarrow>
             (case parse_nested_block lines (line_idx + 1) indent of
                (nested, _) \<Rightarrow>
                  if nested \<noteq> [] then dict_set result key (Dict nested) else result)))"

definition parse_nested_section :: "string list \<Rightarrow> string \<Rightarrow> yaml_dict" where
  "parse_nested_section lines section_name =
     foldl (parse_nested_section_step lines) [] (iter_yaml_block lines section_name)"

definition parse_simple_section_step ::
  "(string \<times> string) list \<Rightarrow> block_item \<Rightarrow> (string \<times> string) list" where
  "parse_simple_section_step result item =
     (case item of (key, value_opt, line_idx, indent) \<Rightarrow>
        (case value_opt of
           Some v \<Rightarrow> dict_set result key v
         | None \<Rightarrow> result))"

definition parse_simple_section :: "string list \<Rightarrow> string \<Rightarrow> (string \<times> string) list" where
  "parse_simple_section lines section_name =
     foldl parse_simple_section_step [] (iter_yaml_block lines section_name)"

definition parse_layout_glyphs :: "string list \<Rightarrow> (string \<times> string) list" where
  "parse_layout_glyphs lines =
     foldl (\<lambda>result section_name.
              foldl parse_simple_section_step result (iter_yaml_block lines section_name))
       [] [''layout-glyps'', ''layout-glyphs'']"

text \<open>
  \<open>str.splitlines()\<close>: a line ends at a line feed, a carriage return (with the line
  feed that follows it, if any), a vertical tab, a form feed or one of the separators
  0x1c..0x1e; the text after the last line end is a line when it is not empty.
\<close>

definition is_linebreak :: "char \<Rightarrow> bool" where
  "is_linebreak c =
     (c \<in> set [CHR 0x0A, CHR 0x0B, CHR 0x0C, CHR 0x0D, CHR 0x1C, CHR 0x1D, CHR 0x1E])"

fun splitlines_from :: "string \<Rightarrow> string \<Rightarrow> string list" where
  "splitlines_from cur [] = (if cur = [] then [] else [cur])"
| "splitlines_from cur [c] = (if is_linebreak c then [cur] else [cur @ [c]])"
| "splitlines_from cur (c # d # cs) =
     (if c = CHR 0x0D \<and> d = CHR 0x0A then cur # splitlines_from [] cs
      else if is_linebreak c then cur # splitlines_from [] (d # cs)
      else splitlines_from (cur @ [c]) (d # cs))"

definition splitlines :: "string \<Rightarrow> string list" where
  "splitlines content = splitlines_from [] content"

definition load_config_from_string :: "string \<Rightarrow> ParsedConfig" where
  "load_config_from_string content =
     (let lines = splitlines content;
          cfg = parse_config_section lines;
          icons1 = parse_nested_section lines ''icons'';
          title_icons1 = parse_simple_section lines ''title_icons'';
          sessions1 = parse_simple_section lines ''sessions'';
          hosts1 = parse_nested_section lines ''hosts'';
          layout_glyphs1 = parse_layout_glyphs lines
      in \<lparr> config = cfg\<lparr>layout_glyphs := layout_glyphs1\<rparr>,
           icons = icons1,
           title_icons = title_icons1,
           sessions = sessions1,
           hosts = hosts1 \<rparr>)"

text \<open>
  What the program asks of its surroundings is a parameter of the model: the file
  system (\<open>os.path.expanduser\<close>, \<open>os.path.getsize\<close> and \<open>os.path.getmtime\<close>, which
  fail with \<open>OSError\<close>, here \<open>None\<close>; opening and reading a file as text, which may
  fail with an exception of its own), the process table behind
  \<open>get_foreground_cmdline\<close>, the regular expression engine and Python's \<open>str()\<close> of
  a dictionary. A modification time is a finite float; only its order matters, and it
  is a real number here.

  \<open>re.search(pattern, title, re.IGNORECASE)\<close> finds a match or none, raises
  \<open>re.error\<close> for a pattern that does not compile, or raises another exception: the
  engine answers a repetition count beyond its limit, as in \<open>a{4294967296}\<close>, with
  \<open>OverflowError\<close>, which is not an \<open>re.error\<close>.
\<close>

datatype re_result = Found | NotFound | ReError | Raised py_error

record environment =
  expanduser :: "string \<Rightarrow> string"
  getsize :: "string \<Rightarrow> nat option"
  getmtime :: "string \<Rightarrow> real option"
  read_text :: "string \<Rightarrow> py_error + string"
  get_foreground_cmdline :: "int \<Rightarrow> string list"
  re_search :: "string \<Rightarrow> string \<Rightarrow> re_result"
  str_of_dict :: "yaml_dict \<Rightarrow> string"

definition load_config :: "environment \<Rightarrow> string \<Rightarrow> py_error + ParsedConfig" where
  "load_config env path0 =
     (let path = expanduser env path0 in
      case getsize env path of
        None \<Rightarrow> Inl (FileNotFoundError (''Cannot access config file: '' @ path))
      | Some file_size \<Rightarrow>
          if file_size > MAX_CONFIG_SIZE then
            Inl (ValueError (''Config file too large: '' @ show_nat file_size @ '' bytes (max ''
                               @ show_nat MAX_CONFIG_SIZE @ '')''))
          else (case read_text env path of
                  Inl e \<Rightarrow> Inl e
                | Inr content \<Rightarrow> Inr (load_config_from_string content)))"

section \<open>icon\_resolver.py\<close>


text \<open>
  \<open>IconResult\<close> is a dataclass whose fields are annotated as strings but never checked:
  \<open>value.get("icon", ...)\<close> and the colour lookups return whatever the configuration
  holds under the key, a string or a nested mapping, so the fields are configuration
  values here.
\<close>

record IconResult =
  icon :: yaml_value
  ring_color :: "yaml_value option"
  icon_color :: "yaml_value option"
  alert_color :: "yaml_value option"
  source :: string

record cache_state =
  config_cache :: "ParsedConfig option"
  config_mtime :: real
  config_path_cache :: string

definition initial_cache :: cache_state where
  "initial_cache = \<lparr> config_cache = None, config_mtime = 0, config_path_cache = '''' \<rparr>"

definition get_config ::
  "environment \<Rightarrow> cache_state \<Rightarrow> string \<Rightarrow> (py_error + ParsedConfig) \<times> cache_state" where
  "get_config env st config_path =
     (let path = expanduser env config_path;
          current_mtime = (case getmtime env path of Some m \<Rightarrow> m | None \<Rightarrow> 0);
          cache_invalid = (config_cache st = None \<or> path \<noteq> config_path_cache st
                           \<or> current_mtime > config_mtime st)
      in if cache_invalid then
           (case load_config env path of
              Inl e \<Rightarrow> (Inl e, st)
            | Inr c \<Rightarrow>
                (Inr c, \<lparr> config_cache = Some c, config_mtime = current_mtime,
                           config_path_cache = path \<rparr>))
         else (case config_cache st of
                 None \<Rightarrow> (Inl AssertionError, st)
               | Some c \<Rightarrow> (Inr c, st)))"

text \<open>
  Python's truth value of a looked-up configuration value, and \<open>a or b\<close>.
\<close>

definition truthy :: "yaml_value option \<Rightarrow> bool" where
  "truthy v = (case v of None \<Rightarrow> False | Some (Str s) \<Rightarrow> s \<noteq> [] | Some (Dict d) \<Rightarrow> d \<noteq> [])"

definition py_or :: "yaml_value option \<Rightarrow> yaml_value option \<Rightarrow> yaml_value option" where
  "py_or a b = (if truthy a then a else b)"

text \<open>
  Modelled from the spec: \<open>fnmatch.fnmatch\<close> of Python's standard library, which is
  not part of the repository. The specification calls the syntax shell-style: \<open>*\<close>
  matches any sequence of characters, \<open>?\<close> any single character, \<open>[seq]\<close> any
  character in \<open>seq\<close> and \<open>[!seq]\<close> any character not in \<open>seq\<close>; every other
  character matches itself, and the whole name must match. In \<open>seq\<close> a closing bracket
  that comes first is a member, \<open>a-z\<close> is a range, and a \<open>[\<close> with no closing
  bracket matches itself.
\<close>

definition bracket_close :: "string \<Rightarrow> nat option" where
  \<comment> \<open>the index of the bracket that closes a set whose text starts after \<open>[\<close>\<close>
  "bracket_close ps =
     (let j0 = (if take 1 ps = ''!'' then 1 else 0);
          j1 = (if take 1 (drop j0 ps) = '']'' then j0 + 1 else j0);
          k = j1 + length (takeWhile (\<lambda>c. c \<noteq> CHR '']'') (drop j1 ps))
      in if k < length ps then Some k else None)"

fun in_class :: "char \<Rightarrow> string \<Rightarrow> bool" where
  "in_class c (lo # d # hi # cs) =
     (if d = CHR ''-'' then
        ((of_char lo :: nat) \<le> of_char c \<and> (of_char c :: nat) \<le> of_char hi) \<or> in_class c cs
      else c = lo \<or> in_class c (d # hi # cs))"
| "in_class c (x # xs) = (c = x \<or> in_class c xs)"
| "in_class c [] = False"

definition set_matches :: "string \<Rightarrow> char \<Rightarrow> bool" where
  "set_matches content c =
     (if take 1 content = ''!'' then \<not> in_class c (drop 1 content) else in_class c content)"

fun glob_match :: "string \<Rightarrow> string \<Rightarrow> bool" where
  \<comment> \<open>Modelled from the spec: a shell-style pattern against a whole name\<close>
  "glob_match [] name = (name = [])"
| "glob_match (p # ps) name =
     (if p = CHR ''*'' then
        (glob_match ps name \<or> (case name of [] \<Rightarrow> False | c # cs \<Rightarrow> glob_match (p # ps) cs))
      else if p = CHR ''?'' then
        (case name of [] \<Rightarrow> False | c # cs \<Rightarrow> glob_match ps cs)
      else if p = CHR ''['' \<and> bracket_close ps \<noteq> None then
        (case name of
           [] \<Rightarrow> False
         | c # cs \<Rightarrow>
             set_matches (take (the (bracket_close ps)) ps) c
             \<and> glob_match (drop (Suc (the (bracket_close ps))) ps) cs)
      else (case name of [] \<Rightarrow> False | c # cs \<Rightarrow> c = p \<and> glob_match ps cs))"

definition fnmatch :: "string \<Rightarrow> string \<Rightarrow> bool" where
  \<comment> \<open>Modelled from the spec: \<open>fnmatch.fnmatch(name, pat)\<close> of the standard library\<close>
  "fnmatch name pat = glob_match pat name"

definition extract_host_result :: "yaml_value \<Rightarrow> IconConfig \<Rightarrow> IconResult" where
  "extract_host_result v cfg =
     (case v of
        Str s \<Rightarrow>
          \<lparr> icon = Str s, ring_color = None, icon_color = None, alert_color = None,
            source = ''host'' \<rparr>
      | Dict d \<Rightarrow>
          \<lparr> icon = (case dict_get d ''icon'' of Some i \<Rightarrow> i | None \<Rightarrow> Str (fallback_icon cfg)),
            ring_color = py_or (dict_get d ''ring-color'') (dict_get d ''index-color''),
            icon_color = dict_get d ''icon-color'',
            alert_color = dict_get d ''alert-color'',
            source = ''host'' \<rparr>)"

fun match_host_loop :: "string \<Rightarrow> yaml_dict \<Rightarrow> IconConfig \<Rightarrow> IconResult option" where
  "match_host_loop host_lower [] cfg = None"
| "match_host_loop host_lower ((pattern, v) # rest) cfg =
     (let pattern_lower = lower pattern in
      if pattern_lower = host_lower then Some (extract_host_result v cfg)
      else if fnmatch host_lower pattern_lower then Some (extract_host_result v cfg)
      else match_host_loop host_lower rest cfg)"

definition match_host :: "string \<Rightarrow> yaml_dict \<Rightarrow> IconConfig \<Rightarrow> IconResult option" where
  "match_host host hs cfg = match_host_loop (lower host) hs cfg"








definition simple_result :: "string \<Rightarrow> string \<Rightarrow> IconResult" where
  \<comment> \<open>\<open>IconResult(icon=i, source=src)\<close>\<close>
  "simple_result i src =
     \<lparr> icon = Str i, ring_color = None, icon_color = None, alert_color = None,
       source = src \<rparr>"




fun match_process_loop :: "string \<Rightarrow> yaml_dict \<Rightarrow> IconConfig \<Rightarrow> IconResult option" where
  "match_process_loop process_lower [] cfg = None"
| "match_process_loop process_lower ((key, v) # rest) cfg =
     (if lower key \<noteq> process_lower then match_process_loop process_lower rest cfg
      else (case v of
              Str s \<Rightarrow> Some (simple_result s ''process'')
            | Dict d \<Rightarrow>
                Some \<lparr> icon = (case dict_get d ''icon'' of
                                 Some i \<Rightarrow> i
                               | None \<Rightarrow> Str (fallback_icon cfg)),
                       ring_color = None,
                       icon_color = dict_get d ''icon-color'',
                       alert_color = None,
                       source = ''process'' \<rparr>))"

definition match_process :: "string \<Rightarrow> yaml_dict \<Rightarrow> IconConfig \<Rightarrow> IconResult option" where
  "match_process process ics cfg =
     (if process = [] then None else match_process_loop (lower process) ics cfg)"








section \<open>The host command parser as the specification describes it\<close>

text \<open>
  The scan for the first positional argument as the specification words it, by
  recursion on the argument list: \<open>--\<close> makes the next token positional, a flag that
  takes a value consumes the following token too, any other token starting with a dash
  is skipped alone, and the first remaining token is the target.
\<close>

fun spec_first_positional :: "string list \<Rightarrow> string option" where
  "spec_first_positional [] = None"
| "spec_first_positional [a] =
     (if a = ''--'' then None
      else if a \<in> set SSH_OPTIONS_WITH_ARG then None
      else if startswith ''-'' a then None
      else Some a)"
| "spec_first_positional (a # b # rest) =
     (if a = ''--'' then Some b
      else if a \<in> set SSH_OPTIONS_WITH_ARG then spec_first_positional rest
      else if startswith ''-'' a then spec_first_positional (b # rest)
      else Some a)"

text \<open>
  Hostname normalisation as the specification words it: drop everything up to the first
  \<open>@\<close>; of a remainder that starts with \<open>[\<close> keep what stands between that bracket
  and the first \<open>]\<close> (everything after the bracket when there is no \<open>]\<close>); of any
  other remainder keep what stands before the first colon; lowercase the result.
  \<open>spec_normalize\<close> is this description as it stands, \<open>spec_normalize_stripped\<close> is the
  same with surrounding whitespace removed from the remainder first.
\<close>

definition spec_strip_user :: "string \<Rightarrow> string" where
  "spec_strip_user t =
     (if CHR ''@'' \<in> set t then drop 1 (dropWhile (\<lambda>c. c \<noteq> CHR ''@'') t) else t)"

definition spec_host_part :: "string \<Rightarrow> string" where
  "spec_host_part r =
     (case r of
        [] \<Rightarrow> []
      | c # cs \<Rightarrow>
          if c = CHR ''['' then
            (if CHR '']'' \<in> set cs then takeWhile (\<lambda>c. c \<noteq> CHR '']'') cs else cs)
          else takeWhile (\<lambda>c. c \<noteq> CHR '':'') r)"

definition spec_normalize :: "string \<Rightarrow> string" where
  "spec_normalize t = lower (spec_host_part (spec_strip_user t))"

definition spec_normalize_stripped :: "string \<Rightarrow> string" where
  "spec_normalize_stripped t = lower (spec_host_part (strip (spec_strip_user t)))"

section \<open>The tiers of the resolver as the specification describes them\<close>



text \<open>
  The host tier is gated by \<open>prefer_host_icon\<close> and needs a detected host name that is
  not empty and a key of \<open>hosts\<close> that equals it without regard to case or matches it
  as a glob.
\<close>

definition host_key_matches :: "string \<Rightarrow> string \<times> yaml_value \<Rightarrow> bool" where
  "host_key_matches host kv =
     (lower (fst kv) = lower host \<or> fnmatch (lower host) (lower (fst kv)))"







text \<open>
  The process tier: the process name equals a key of \<open>icons\<close> without regard to case.
  The session tier: session and \<open>sessions\<close> are not empty and a token of the lowercased
  session name is a key, or equals a lowercased key.
\<close>

definition process_key_matches :: "string \<Rightarrow> string \<times> yaml_value \<Rightarrow> bool" where
  "process_key_matches process kv = (lower (fst kv) = lower process)"





text \<open>
  The regular expression engine raises an exception other than \<open>re.error\<close> on a
  pattern of the configuration that the resolver would hand to it.
\<close>

definition pattern_raises :: "environment \<Rightarrow> string \<Rightarrow> string \<times> yaml_value \<Rightarrow> bool" where
  "pattern_raises env title entry =
     (length (fst entry) \<le> 500 \<and>
      (case re_search env (fst entry) title of Raised e \<Rightarrow> True | _ \<Rightarrow> False))"

definition entry_raises :: "environment \<Rightarrow> string \<Rightarrow> string \<times> yaml_value \<Rightarrow> bool" where
  "entry_raises env title kv =
     (case snd kv of
        Str s \<Rightarrow> False
      | Dict entry \<Rightarrow>
          (case dict_get entry ''title'' of
             Some (Dict title_patterns) \<Rightarrow> list_ex (pattern_raises env title) title_patterns
           | _ \<Rightarrow> False))"


text \<open>
  An environment and configuration files to run the theorems on. The file \<open>cfg\<close> has a
  \<open>sessions\<close> block only; the process table knows one pane, 1, whose foreground
  process is \<open>mosh db.local\<close>. The regular expression engine
  knows what Python answers for the patterns used here: \<open>^$\<close> is found in the empty
  title only, \<open>(\<close> does not compile, \<open>a{4294967296}\<close> raises \<open>OverflowError\<close>, and a
  pattern of letters is found where it occurs, in either case.
\<close>

definition example_text :: string where
  "example_text = ''sessions:'' @ [CHR 0x0A] @ ''  alpha: A'' @ [CHR 0x0A]"

definition example_re_search :: "string \<Rightarrow> string \<Rightarrow> re_result" where
  "example_re_search pattern title =
     (if pattern = ''a{4294967296}'' then
        Raised (OverflowError ''the repetition number is too large'')
      else if pattern = ''('' then ReError
      else if pattern = ''^$'' then (if title = [] then Found else NotFound)
      else if contains (lower pattern) (lower title) then Found
      else NotFound)"

definition example_env :: environment where
  "example_env =
     \<lparr> expanduser = (\<lambda>p. p),
       getsize = (\<lambda>p. if p = ''cfg'' then Some 20 else None),
       getmtime = (\<lambda>p. if p = ''cfg'' then Some 7 else None),
       read_text = (\<lambda>p. if p = ''cfg'' then Inr example_text else Inl (OSError p)),
       get_foreground_cmdline = (\<lambda>pid. if pid = 1 then [''mosh'', ''db.local''] else []),
       re_search = example_re_search,
       str_of_dict = (\<lambda>d. []) \<rparr>"

definition example_conf :: ParsedConfig where
  "example_conf = load_config_from_string example_text"






section \<open>The configuration loader as the specification describes it\<close>

text \<open>
  The reload condition of the cache as the specification words it: the cache is empty,
  the requested path differs from the cached path, the stat of the file fails, or the
  observed modification time has advanced past the cached one.
\<close>

definition spec_cache_stale :: "environment \<Rightarrow> cache_state \<Rightarrow> string \<Rightarrow> bool" where
  "spec_cache_stale env st config_path =
     (config_cache st = None
      \<or> expanduser env config_path \<noteq> config_path_cache st
      \<or> (case getmtime env (expanduser env config_path) of
            None \<Rightarrow> True
          | Some m \<Rightarrow> m > config_mtime st))"

text \<open>
  The same with a failed stat read as the modification time \<open>0.0\<close>.
\<close>

definition observed_mtime :: "environment \<Rightarrow> string \<Rightarrow> real" where
  "observed_mtime env config_path =
     (case getmtime env (expanduser env config_path) of None \<Rightarrow> 0 | Some m \<Rightarrow> m)"

definition cache_stale :: "environment \<Rightarrow> cache_state \<Rightarrow> string \<Rightarrow> bool" where
  "cache_stale env st config_path =
     (config_cache st = None
      \<or> expanduser env config_path \<noteq> config_path_cache st
      \<or> observed_mtime env config_path > config_mtime st)"

text \<open>
  Configuration texts to run the parser on: an \<open>icons\<close> entry with a \<open>title\<close> block
  that holds one pattern of \<open>n\<close> characters, on line 4 of the text; and a \<open>config\<close>
  block whose values are quoted empty strings.
\<close>

definition long_pattern :: "nat \<Rightarrow> string" where
  "long_pattern n = replicate n (CHR ''a'')"

definition long_pattern_text :: "nat \<Rightarrow> string" where
  "long_pattern_text n =
     ''icons:'' @ [CHR 0x0A] @ ''  vim:'' @ [CHR 0x0A] @ ''    title:'' @ [CHR 0x0A]
     @ ''      '' @ long_pattern n @ '': X'' @ [CHR 0x0A]"

definition empty_values_text :: string where
  "empty_values_text =
     ''config:'' @ [CHR 0x0A]
     @ ''  prefer-host-icon: '' @ [CHR 0x22, CHR 0x22, CHR 0x0A]
     @ ''  fallback-icon: '' @ [CHR 0x27, CHR 0x27, CHR 0x0A]
     @ ''  icon_color: '' @ [CHR 0x22, CHR 0x22, CHR 0x0A]"

definition norm_config_key :: "string \<Rightarrow> string" where
  \<comment> \<open>a settings key with hyphens and underscores alike, in lower case\<close>
  "norm_config_key key = map (\<lambda>c. if c = CHR ''-'' then CHR ''_'' else c) (lower key)"

definition vanished_env :: environment where
  \<comment> \<open>the example environment after its file has been removed\<close>
  "vanished_env = example_env\<lparr> getsize := (\<lambda>p. None), getmtime := (\<lambda>p. None) \<rparr>"


definition example_cache :: cache_state where
  "example_cache =
     \<lparr> config_cache = Some example_conf, config_mtime = 7, config_path_cache = ''cfg'' \<rparr>"

section \<open>The host command parser\<close>

subsection \<open>Option scanning\<close>

lemma ssh_options_dash: "a \<in> set SSH_OPTIONS_WITH_ARG \<Longrightarrow> startswith ''-'' a"
  by (auto simp: SSH_OPTIONS_WITH_ARG_def startswith_def)

lemma take_first_from_spec:
  "take_first_non_option_from args i = spec_first_positional (drop i args)"
proof (induction args i rule: take_first_non_option_from.induct)
  case (1 args i)
  show ?case
  proof (cases "i < length args")
    case False
    then show ?thesis by (simp add: take_first_non_option_from.simps)
  next
    case True
    then have d: "drop i args = args ! i # drop (Suc i) args"
      by (simp add: Cons_nth_drop_Suc)
    show ?thesis
    proof (cases "i + 1 < length args")
      case False
      then have e: "drop (Suc i) args = []" "drop (i + 2) args = []" by simp_all
      show ?thesis
        using 1 True False d e ssh_options_dash[of "args ! i"]
        by (subst take_first_non_option_from.simps) (auto simp add: Let_def)
    next
      case len: True
      then have d1: "drop (Suc i) args = args ! (i + 1) # drop (i + 2) args"
        using Cons_nth_drop_Suc[of "Suc i" args] by simp
      show ?thesis
        using 1 True len d d1 ssh_options_dash[of "args ! i"]
        by (subst take_first_non_option_from.simps) (auto simp add: Let_def)
    qed
  qed
qed

lemma take_first_non_option_spec: "take_first_non_option args = spec_first_positional args"
  by (simp add: take_first_non_option_def take_first_from_spec)

lemma extract_host_ssh_example:
  "parse_ssh_host (CmdStr ''ssh -i ~/.ssh/key -p 2222 server.local'') = Some ''server.local''"
  by code_simp

lemma extract_host_vim_example: "parse_ssh_host (CmdStr ''vim file.txt'') = None"
  by code_simp

lemma extract_host_mosh_example:
  "parse_ssh_host (CmdStr ''mosh user@10.0.0.1'') = Some ''10.0.0.1''"
  by code_simp

text \<open>
  Claim C6. A command line whose program name (the basename of argument 0) is not one of
  ssh, slogin, mosh, mosh-client gives no host. For a recognised program the result is
  the first positional argument found by the option scan of the specification, in its
  normalised form; an empty token counts as no host. A command line given as one
  string is split on whitespace first. The three examples of the specification hold.
\<close>

theorem C6_extract_host:
  "parse_ssh_host (CmdSeq (a0 # rest)) =
     (if basename a0 \<in> set SSH_COMMANDS then
        (case spec_first_positional rest of
           None \<Rightarrow> None
         | Some h \<Rightarrow> if h = [] then None else Some (normalize_hostname h))
      else None)
   \<and> parse_ssh_host (CmdSeq []) = None
   \<and> parse_ssh_host (CmdStr s) = parse_ssh_host (CmdSeq (py_split s))
   \<and> parse_ssh_host (CmdStr ''ssh -i ~/.ssh/key -p 2222 server.local'') = Some ''server.local''
   \<and> parse_ssh_host (CmdStr ''vim file.txt'') = None
   \<and> parse_ssh_host (CmdStr ''mosh user@10.0.0.1'') = Some ''10.0.0.1''"
proof -
  have seq: "parse_ssh_host (CmdSeq (a0 # rest)) =
     (if basename a0 \<in> set SSH_COMMANDS then
        (case spec_first_positional rest of
           None \<Rightarrow> None
         | Some h \<Rightarrow> if h = [] then None else Some (normalize_hostname h))
      else None)"
    by (simp add: parse_ssh_host_def take_first_non_option_spec)
  have nil: "parse_ssh_host (CmdSeq []) = None"
    by (simp add: parse_ssh_host_def)
  have str: "parse_ssh_host (CmdStr s) = parse_ssh_host (CmdSeq (py_split s))"
    by (simp add: parse_ssh_host_def)
  show ?thesis
    using seq nil str extract_host_ssh_example extract_host_vim_example
      extract_host_mosh_example
    by (simp only: simp_thms)
qed

subsection \<open>Hostname normalisation\<close>

lemma startswith_single: "startswith [c] s = (case s of [] \<Rightarrow> False | d # _ \<Rightarrow> d = c)"
  by (cases s) (auto simp: startswith_def)

lemma contains_single: "contains [c] s = (c \<in> set s)"
  by (induction s) (auto simp: startswith_single)

lemma split_once_single:
  "split_once [c] s =
     (if c \<in> set s then Some (takeWhile (\<lambda>d. d \<noteq> c) s, drop 1 (dropWhile (\<lambda>d. d \<noteq> c) s))
      else None)"
  by (induction s) (auto simp: startswith_single)

lemma py_find_single:
  "py_find [c] s =
     (if c \<in> set s then int (length (takeWhile (\<lambda>d. d \<noteq> c) s)) else - 1)"
  by (induction s) (auto simp: startswith_single Let_def)

lemma takeWhile_notin: "c \<notin> set cs \<Longrightarrow> takeWhile (\<lambda>d. d \<noteq> c) cs = cs"
  by (induction cs) auto

lemma host1_spec:
  "(if contains ''@'' t then py_split1 ''@'' t ! 1 else t) = spec_strip_user t"
  by (simp add: contains_single py_split1_def split_once_single spec_strip_user_def)

lemma host3_spec:
  "(if startswith ''['' r then
      (let bracket_end = py_find '']'' r in
       if bracket_end > 0 then drop 1 (take (nat bracket_end) r) else drop 1 r)
    else if contains '':'' r then py_split1 '':'' r ! 0 else r) = spec_host_part r"
proof (cases r)
  case Nil
  then show ?thesis by (simp add: startswith_def spec_host_part_def)
next
  case (Cons c cs)
  show ?thesis
  proof (cases "c = CHR ''[''")
    case True
    then show ?thesis
      using Cons
      by (auto simp add: startswith_single py_find_single spec_host_part_def Let_def
          drop_Suc nat_add_distrib takeWhile_eq_take[symmetric])
  next
    case False
    then show ?thesis
      using Cons
      by (auto simp add: startswith_single contains_single py_split1_def split_once_single
          spec_host_part_def takeWhile_notin)
  qed
qed

lemma normalize_hostname_spec: "normalize_hostname t = spec_normalize_stripped t"
  unfolding normalize_hostname_def spec_normalize_stripped_def
  by (simp only: Let_def host1_spec host3_spec[unfolded Let_def])

lemma normalize_ipv6_example: "normalize_hostname ''user@[2001:db8::1]:22'' = ''2001:db8::1''"
  by code_simp

lemma normalize_case_example: "normalize_hostname ''Example.COM'' = ''example.com''"
  by code_simp

lemma normalize_port_example: "normalize_hostname ''host:22'' = ''host''"
  by code_simp

text \<open>
  Claim C7, as stated: normalisation is exactly the four steps of the description. It
  fails on a target with whitespace around the host, which the code strips and the
  description keeps: a sequence command line \<open>["ssh", "user@host "]\<close> gives \<open>host\<close>.
\<close>

theorem C7_normalize_counterexample:
  "normalize_hostname ''user@host '' = ''host'' \<and> spec_normalize ''user@host '' = ''host ''"
  by code_simp

text \<open>
  Claim C7, amended: normalisation strips an optional \<open>user@\<close> prefix (up to the first
  \<open>@\<close>), strips surrounding whitespace from the remainder, extracts a bracketed address
  up to the first closing bracket (dropping only the leading bracket when there is
  none), otherwise drops everything from the first colon onward, and lowercases the
  result. The three examples of the specification hold.
\<close>

theorem C7_normalize_hostname:
  "normalize_hostname t = spec_normalize_stripped t
   \<and> normalize_hostname ''user@[2001:db8::1]:22'' = ''2001:db8::1''
   \<and> normalize_hostname ''Example.COM'' = ''example.com''
   \<and> normalize_hostname ''host:22'' = ''host''"
  using normalize_hostname_spec [of t] normalize_ipv6_example normalize_case_example
    normalize_port_example
  by (simp only: simp_thms)

section \<open>The resolver\<close>

subsection \<open>The host tier\<close>

lemma match_host_loop_find:
  "match_host_loop (lower host) hs cfg =
     (case find (host_key_matches host) hs of
        None \<Rightarrow> None
      | Some kv \<Rightarrow> Some (extract_host_result (snd kv) cfg))"
  by (induction hs) (auto simp: host_key_matches_def Let_def)

lemma glob_local_matches: "fnmatch ''server.local'' ''*.local''"
  by code_simp

lemma glob_remote_differs: "\<not> fnmatch ''server.remote'' ''*.local''"
  by code_simp

lemma glob_before_exact:
  "find (host_key_matches ''server.local'')
     [(''*.local'', Str ''G''), (''server.local'', Str ''E'')] = Some (''*.local'', Str ''G'')"
  by code_simp

lemma match_host_find:
  "match_host host hs cfg =
     (case find (host_key_matches host) hs of
        None \<Rightarrow> None
      | Some kv \<Rightarrow> Some (extract_host_result (snd kv) cfg))"
  by (simp add: match_host_def match_host_loop_find)

lemma glob_before_exact_result:
  "match_host ''server.local'' [(''*.local'', Str ''G''), (''server.local'', Str ''E'')] cfg
     = Some (extract_host_result (Str ''G'') cfg)"
  by (simp only: match_host_find glob_before_exact option.case snd_conv)

text \<open>
  Claim C5. The host tier examines the entries of \<open>hosts\<close> in insertion order, and
  its result comes from the first entry whose key equals the host name without regard to
  case or matches it as a glob. The pattern \<open>*.local\<close> matches \<open>server.local\<close> and does
  not match \<open>server.remote\<close>, and a glob entry that comes first wins over an exact
  entry that comes later.
\<close>

theorem C5_host_tier:
  "match_host host hs cfg =
     (case find (host_key_matches host) hs of
        None \<Rightarrow> None
      | Some kv \<Rightarrow> Some (extract_host_result (snd kv) cfg))
   \<and> fnmatch ''server.local'' ''*.local''
   \<and> \<not> fnmatch ''server.remote'' ''*.local''
   \<and> match_host ''server.local'' [(''*.local'', Str ''G''), (''server.local'', Str ''E'')] cfg
       = Some (extract_host_result (Str ''G'') cfg)"
  using match_host_find [of host hs cfg] glob_local_matches glob_remote_differs
    glob_before_exact_result [of cfg]
  by (simp only: simp_thms)

subsection \<open>Detailed entries without an icon\<close>

lemma match_process_loop_find:
  "match_process_loop (lower process) ics cfg =
     (case find (process_key_matches process) ics of
        None \<Rightarrow> None
      | Some kv \<Rightarrow>
          (case snd kv of
             Str s \<Rightarrow> Some (simple_result s ''process'')
           | Dict d \<Rightarrow>
               Some \<lparr> icon = (case dict_get d ''icon'' of
                                Some i \<Rightarrow> i
                              | None \<Rightarrow> Str (fallback_icon cfg)),
                      ring_color = None,
                      icon_color = dict_get d ''icon-color'',
                      alert_color = None,
                      source = ''process'' \<rparr>))"
  by (induction ics) (auto simp: process_key_matches_def)

lemma host_entry_without_icon:
  assumes "find (host_key_matches host) hs = Some (k, Dict d)"
    and "dict_get d ''icon'' = None"
  shows "match_host host hs cfg =
           Some \<lparr> icon = Str (fallback_icon cfg),
                  ring_color = (if truthy (dict_get d ''ring-color'')
                                then dict_get d ''ring-color''
                                else dict_get d ''index-color''),
                  icon_color = dict_get d ''icon-color'',
                  alert_color = dict_get d ''alert-color'',
                  source = ''host'' \<rparr>"
  using assms by (simp add: match_host_find extract_host_result_def py_or_def)

lemma process_entry_without_icon:
  assumes "process \<noteq> []"
    and "find (process_key_matches process) ics = Some (k, Dict d)"
    and "dict_get d ''icon'' = None"
  shows "match_process process ics cfg =
           Some \<lparr> icon = Str (fallback_icon cfg),
                  ring_color = None,
                  icon_color = dict_get d ''icon-color'',
                  alert_color = None,
                  source = ''process'' \<rparr>"
  using assms by (simp add: match_process_def match_process_loop_find)

text \<open>
  Claim C10, as stated: a detailed entry without an icon that matches at the process
  tier has its colour overrides applied. It fails for the ring and alert colours: an
  \<open>icons\<close> entry \<open>vim\<close> that holds \<open>ring-color\<close> and \<open>alert-color\<close> and no \<open>icon\<close>
  resolves the process \<open>vim\<close> to the fallback icon with no colour at all.
\<close>

theorem C10_process_colors_counterexample:
  "match_process ''vim''
     [(''vim'', Dict [(''ring-color'', Str ''#ff0000''), (''alert-color'', Str ''#00ff00'')])]
     default_IconConfig =
   Some \<lparr> icon = Str default_fallback_icon, ring_color = None, icon_color = None,
          alert_color = None, source = ''process'' \<rparr>"
  by code_simp

text \<open>
  Claim C10, amended. When the entry that matches is a nested mapping without an
  \<open>icon\<close> key, the result's icon is the global fallback icon and \<open>source\<close> still reads
  \<open>host\<close> or \<open>process\<close>. At the host tier the entry's \<open>ring-color\<close> (or its
  \<open>index-color\<close> when \<open>ring-color\<close> is absent or empty), \<open>icon-color\<close> and
  \<open>alert-color\<close> are applied; at the process tier only its \<open>icon-color\<close> is applied.
\<close>

theorem C10_entry_without_icon:
  "(find (host_key_matches host) hs = Some (k, Dict d) \<and> dict_get d ''icon'' = None \<longrightarrow>
      match_host host hs cfg =
        Some \<lparr> icon = Str (fallback_icon cfg),
               ring_color = (if truthy (dict_get d ''ring-color'')
                             then dict_get d ''ring-color''
                             else dict_get d ''index-color''),
               icon_color = dict_get d ''icon-color'',
               alert_color = dict_get d ''alert-color'',
               source = ''host'' \<rparr>)
   \<and> (process \<noteq> [] \<and> find (process_key_matches process) ics = Some (k', Dict d')
        \<and> dict_get d' ''icon'' = None \<longrightarrow>
      match_process process ics cfg =
        Some \<lparr> icon = Str (fallback_icon cfg),
               ring_color = None,
               icon_color = dict_get d' ''icon-color'',
               alert_color = None,
               source = ''process'' \<rparr>)"
  using host_entry_without_icon [of host hs k d cfg]
    process_entry_without_icon [of process ics k' d' cfg]
  by blast

lemma example_host_entry:
  "find (host_key_matches ''db.local'')
     [(''*.local'', Dict [(''index-color'', Str ''#111111''), (''alert-color'', Str ''#222222'')])]
   = Some (''*.local'', Dict [(''index-color'', Str ''#111111''), (''alert-color'', Str ''#222222'')])"
  by code_simp

lemma example_process_entry:
  "find (process_key_matches ''Vim'')
     [(''vim'', Dict [(''icon-color'', Str ''#333333''), (''ring-color'', Str ''#444444'')])]
   = Some (''vim'', Dict [(''icon-color'', Str ''#333333''), (''ring-color'', Str ''#444444'')])"
  by code_simp

theorem C10_entry_without_icon_witness:
  "match_host ''db.local''
     [(''*.local'', Dict [(''index-color'', Str ''#111111''), (''alert-color'', Str ''#222222'')])]
     default_IconConfig =
     Some \<lparr> icon = Str default_fallback_icon, ring_color = Some (Str ''#111111''),
            icon_color = None, alert_color = Some (Str ''#222222''), source = ''host'' \<rparr>
   \<and> match_process ''Vim''
       [(''vim'', Dict [(''icon-color'', Str ''#333333''), (''ring-color'', Str ''#444444'')])]
       default_IconConfig =
       Some \<lparr> icon = Str default_fallback_icon, ring_color = None,
              icon_color = Some (Str ''#333333''), alert_color = None, source = ''process'' \<rparr>"
  using C10_entry_without_icon [of "''db.local''"
      "[(''*.local'', Dict [(''index-color'', Str ''#111111''), (''alert-color'', Str ''#222222'')])]"
      "''*.local''" "[(''index-color'', Str ''#111111''), (''alert-color'', Str ''#222222'')]"
      default_IconConfig "''Vim''"
      "[(''vim'', Dict [(''icon-color'', Str ''#333333''), (''ring-color'', Str ''#444444'')])]"
      "''vim''" "[(''icon-color'', Str ''#333333''), (''ring-color'', Str ''#444444'')]"]
    example_host_entry example_process_entry
  by (simp add: dict_get_def truthy_def default_IconConfig_def)

subsection \<open>Host detection\<close>













subsection \<open>The six tiers\<close>







lemma entry_raises_Str: "entry_raises env title (app, Str s) = False"
  by (simp add: entry_raises_def)


























subsection \<open>The keys of a parsed configuration\<close>






subsection \<open>The first matching tier\<close>













section \<open>The configuration parser\<close>

subsection \<open>Empty values in the config block\<close>

lemma parse_bool_empty: "parse_bool [] = False"
  by (simp add: parse_bool_def lower_def strip_def lstrip_def rstrip_def)

lemma step_empty_strings:
  "fallback_icon (parse_config_section_step cfg (key, Some [], line_idx, indent)) = fallback_icon cfg
   \<and> ring_color_active (parse_config_section_step cfg (key, Some [], line_idx, indent))
       = ring_color_active cfg
   \<and> ring_color_inactive (parse_config_section_step cfg (key, Some [], line_idx, indent))
       = ring_color_inactive cfg
   \<and> IconConfig.icon_color (parse_config_section_step cfg (key, Some [], line_idx, indent))
       = IconConfig.icon_color cfg
   \<and> IconConfig.alert_color (parse_config_section_step cfg (key, Some [], line_idx, indent))
       = IconConfig.alert_color cfg
   \<and> multi_pane_icon (parse_config_section_step cfg (key, Some [], line_idx, indent))
       = multi_pane_icon cfg"
  by (simp add: parse_config_section_step_def Let_def)

lemma step_empty_bools:
  "(norm_config_key key = ''prefer_host_icon'' \<longrightarrow>
      prefer_host_icon (parse_config_section_step cfg (key, Some [], line_idx, indent)) = False)
   \<and> (norm_config_key key = ''show_name'' \<longrightarrow>
      show_name (parse_config_section_step cfg (key, Some [], line_idx, indent)) = False)
   \<and> (norm_config_key key = ''use_process_name'' \<longrightarrow>
      use_process_name (parse_config_section_step cfg (key, Some [], line_idx, indent)) = False)"
  by (simp add: parse_config_section_step_def Let_def norm_config_key_def parse_bool_empty)

lemma empty_values_example:
  "config (load_config_from_string empty_values_text) =
     default_IconConfig\<lparr>prefer_host_icon := False\<rparr>"
  by code_simp

text \<open>
  Claim C9. An entry of the \<open>config\<close> block whose inline value strips to the empty
  string leaves the string settings \<open>fallback_icon\<close>, \<open>ring_color_active\<close>,
  \<open>ring_color_inactive\<close>, \<open>icon_color\<close>, \<open>alert_color\<close> and \<open>multi_pane_icon\<close> as
  they were, whatever its key, and still assigns the boolean setting its key names: the
  value parses as false. A file whose \<open>prefer-host-icon\<close>, \<open>fallback-icon\<close> and
  \<open>icon_color\<close> are quoted empty strings gives the defaults with \<open>prefer_host_icon\<close>
  false.
\<close>

theorem C9_empty_config_values:
  "fallback_icon (parse_config_section_step cfg (key, Some [], line_idx, indent)) = fallback_icon cfg
   \<and> ring_color_active (parse_config_section_step cfg (key, Some [], line_idx, indent))
       = ring_color_active cfg
   \<and> ring_color_inactive (parse_config_section_step cfg (key, Some [], line_idx, indent))
       = ring_color_inactive cfg
   \<and> IconConfig.icon_color (parse_config_section_step cfg (key, Some [], line_idx, indent))
       = IconConfig.icon_color cfg
   \<and> IconConfig.alert_color (parse_config_section_step cfg (key, Some [], line_idx, indent))
       = IconConfig.alert_color cfg
   \<and> multi_pane_icon (parse_config_section_step cfg (key, Some [], line_idx, indent))
       = multi_pane_icon cfg
   \<and> (norm_config_key key = ''prefer_host_icon'' \<longrightarrow>
      prefer_host_icon (parse_config_section_step cfg (key, Some [], line_idx, indent)) = False)
   \<and> (norm_config_key key = ''show_name'' \<longrightarrow>
      show_name (parse_config_section_step cfg (key, Some [], line_idx, indent)) = False)
   \<and> (norm_config_key key = ''use_process_name'' \<longrightarrow>
      use_process_name (parse_config_section_step cfg (key, Some [], line_idx, indent)) = False)
   \<and> prefer_host_icon default_IconConfig
   \<and> config (load_config_from_string empty_values_text) =
       default_IconConfig\<lparr>prefer_host_icon := False\<rparr>"
  using step_empty_strings [of cfg key line_idx indent]
    step_empty_bools [of key cfg line_idx indent] empty_values_example
  by (simp add: default_IconConfig_def)

lemma norm_key_examples:
  "norm_config_key ''Prefer-Host-Icon'' = ''prefer_host_icon''"
  "norm_config_key ''show_name'' = ''show_name''"
  "norm_config_key ''use-process_name'' = ''use_process_name''"
  by code_simp+

theorem C9_empty_config_values_witness:
  "prefer_host_icon default_IconConfig
   \<and> prefer_host_icon
       (parse_config_section_step default_IconConfig (''Prefer-Host-Icon'', Some [], 1, 2)) = False
   \<and> show_name
       (parse_config_section_step default_IconConfig (''show_name'', Some [], 1, 2)) = False
   \<and> use_process_name
       (parse_config_section_step default_IconConfig (''use-process_name'', Some [], 1, 2)) = False
   \<and> fallback_icon
       (parse_config_section_step default_IconConfig (''fallback-icon'', Some [], 1, 2))
       = default_fallback_icon"
  using C9_empty_config_values [of default_IconConfig "''Prefer-Host-Icon''" 1 2]
    C9_empty_config_values [of default_IconConfig "''show_name''" 1 2]
    C9_empty_config_values [of default_IconConfig "''use-process_name''" 1 2]
    C9_empty_config_values [of default_IconConfig "''fallback-icon''" 1 2]
    norm_key_examples
  by (simp add: default_IconConfig_def)

subsection \<open>Determinism\<close>

text \<open>
  Claim C8. Parsing is a function of the configuration text alone: the parser reads no
  state and keeps none, and its mappings are built in the order of the lines. Two parses
  of equal texts give equal configurations, field by field, key order included.
\<close>

theorem C8_parse_deterministic:
  "content1 = content2 \<longrightarrow>
     load_config_from_string content1 = load_config_from_string content2
     \<and> config (load_config_from_string content1) = config (load_config_from_string content2)
     \<and> icons (load_config_from_string content1) = icons (load_config_from_string content2)
     \<and> title_icons (load_config_from_string content1)
         = title_icons (load_config_from_string content2)
     \<and> sessions (load_config_from_string content1) = sessions (load_config_from_string content2)
     \<and> hosts (load_config_from_string content1) = hosts (load_config_from_string content2)"
  by simp

theorem C8_parse_deterministic_witness:
  "load_config_from_string example_text = load_config_from_string (example_text @ [])
   \<and> sessions (load_config_from_string example_text)
       = sessions (load_config_from_string (example_text @ []))"
  using C8_parse_deterministic [of example_text "example_text @ []"]
  by simp

subsection \<open>The pattern length limit\<close>

lemma validate_pattern_500: "validate_pattern_length (long_pattern 500) 4 = Inr ()"
  by code_simp

lemma validate_pattern_501:
  "validate_pattern_length (long_pattern 501) 4 =
     Inl (YamlParseError ''Line 4: Regex pattern too long (501 chars, max 500)'' (Some 4))"
  by code_simp

lemma parse_long_pattern:
  "icons (load_config_from_string (long_pattern_text 501)) =
     [(''vim'', Dict [(''title'', Dict [(long_pattern 501, Str ''X'')])])]"
  by code_simp

text \<open>
  Claim C2. \<open>_validate_pattern_length\<close> accepts a pattern of 500 characters and raises
  \<open>YamlParseError\<close> with the line number for one of 501, but no function of the parser
  calls it: \<open>load_config_from_string\<close> has no failing path, and a text whose line 4 is a
  \<open>title\<close> pattern of 501 characters parses to a configuration that holds the pattern.
\<close>

theorem C2_pattern_length_not_enforced:
  "validate_pattern_length (long_pattern 500) 4 = Inr ()
   \<and> validate_pattern_length (long_pattern 501) 4 =
       Inl (YamlParseError ''Line 4: Regex pattern too long (501 chars, max 500)'' (Some 4))
   \<and> icons (load_config_from_string (long_pattern_text 501)) =
       [(''vim'', Dict [(''title'', Dict [(long_pattern 501, Str ''X'')])])]"
  using validate_pattern_500 validate_pattern_501 parse_long_pattern
  by (simp only: simp_thms)

section \<open>Loading and caching\<close>








subsection \<open>The cache\<close>

lemma get_config_stale:
  assumes "cache_stale env st config_path"
  shows "get_config env st config_path =
           (case load_config env (expanduser env config_path) of
              Inl e \<Rightarrow> (Inl e, st)
            | Inr c \<Rightarrow>
                (Inr c, \<lparr> config_cache = Some c,
                           config_mtime = observed_mtime env config_path,
                           config_path_cache = expanduser env config_path \<rparr>))"
  using assms
  unfolding get_config_def cache_stale_def observed_mtime_def Let_def
  by (auto split: option.splits)

lemma get_config_fresh:
  assumes "\<not> cache_stale env st config_path"
  shows "\<exists>c. config_cache st = Some c \<and> get_config env st config_path = (Inr c, st)"
  using assms
  unfolding get_config_def cache_stale_def observed_mtime_def Let_def
  by (auto split: option.splits)

text \<open>
  Claim C4, as stated: a failed stat of the file invalidates the cache. It does not:
  the failure is read as the modification time \<open>0.0\<close>, which is not past the cached
  time 7. With the file gone, the description calls the cache stale, and loading would
  raise \<open>FileNotFoundError\<close>, yet \<open>get_config\<close> returns the cached configuration and
  leaves the cache as it was.
\<close>

theorem C4_stat_failure_counterexample:
  "spec_cache_stale vanished_env example_cache ''cfg''
   \<and> get_config vanished_env example_cache ''cfg'' = (Inr example_conf, example_cache)
   \<and> load_config vanished_env ''cfg''
       = Inl (FileNotFoundError ''Cannot access config file: cfg'')"
  by (simp add: spec_cache_stale_def get_config_def load_config_def vanished_env_def
      example_env_def example_cache_def Let_def)

text \<open>
  Claim C4, amended. \<open>get_config\<close> discards the cached configuration and loads the
  file again exactly when the cache is empty, the requested path (after expansion)
  differs from the cached path, or the observed modification time, taken as \<open>0.0\<close>
  when the stat of the file fails, is greater than the cached one; a load that succeeds
  replaces configuration, time and path, a load that fails leaves the cache as it was.
  Otherwise the cached configuration is returned and the cache is unchanged.
\<close>

theorem C4_cache_reload:
  "(cache_stale env st config_path \<longrightarrow>
      get_config env st config_path =
        (case load_config env (expanduser env config_path) of
           Inl e \<Rightarrow> (Inl e, st)
         | Inr c \<Rightarrow>
             (Inr c, \<lparr> config_cache = Some c,
                        config_mtime = observed_mtime env config_path,
                        config_path_cache = expanduser env config_path \<rparr>)))
   \<and> (\<not> cache_stale env st config_path \<longrightarrow>
      (\<exists>c. config_cache st = Some c \<and> get_config env st config_path = (Inr c, st)))"
  using get_config_stale [of env st config_path] get_config_fresh [of env st config_path]
  by blast

lemma example_cache_states:
  "cache_stale example_env initial_cache ''cfg''"
  "\<not> cache_stale example_env example_cache ''cfg''"
  "\<not> cache_stale vanished_env example_cache ''cfg''"
  "cache_stale (example_env\<lparr>getmtime := (\<lambda>p. Some 8)\<rparr>) example_cache ''cfg''"
  "load_config example_env ''cfg'' = Inr example_conf"
  "load_config (example_env\<lparr>getmtime := (\<lambda>p. Some 8)\<rparr>) ''cfg'' = Inr example_conf"
  by (simp_all add: cache_stale_def observed_mtime_def example_env_def vanished_env_def
      example_cache_def initial_cache_def load_config_def example_conf_def
      MAX_CONFIG_SIZE_def Let_def)

theorem C4_cache_reload_witness:
  "get_config example_env initial_cache ''cfg'' = (Inr example_conf, example_cache)
   \<and> get_config example_env example_cache ''cfg'' = (Inr example_conf, example_cache)
   \<and> get_config (example_env\<lparr>getmtime := (\<lambda>p. Some 8)\<rparr>) example_cache ''cfg''
       = (Inr example_conf, example_cache\<lparr>config_mtime := 8\<rparr>)"
  using C4_cache_reload [of example_env initial_cache "''cfg''"]
    C4_cache_reload [of example_env example_cache "''cfg''"]
    C4_cache_reload [of "example_env\<lparr>getmtime := (\<lambda>p. Some 8)\<rparr>" example_cache "''cfg''"]
    example_cache_states
  by (auto simp add: example_cache_def observed_mtime_def example_env_def)

end
